theory Spec2Isabelle
  imports Complex_Main "HOL-Library.Monad_Syntax"
begin

section \<open>Data model of \<open>turtle_adventure.py\<close>\<close>

text \<open>
  Coordinates and speeds are Python numbers (ints produced by \<open>random.randint\<close> and
  \<open>math.floor\<close>, floats elsewhere); they are embedded as \<^typ>\<open>real\<close>, with
  \<open>math.floor\<close> and \<open>math.ceil\<close> as \<^const>\<open>floor\<close> and \<^const>\<open>ceiling\<close>.
  The counters of the patrol enemy only ever hold Python ints and are \<^typ>\<open>int\<close>.
\<close>

subsection \<open>Waypoint and Home\<close>

record waypoint =
  waypoint_x :: real
  waypoint_y :: real
  active :: bool

definition activate :: "real \<Rightarrow> real \<Rightarrow> waypoint \<Rightarrow> waypoint" where
  "activate px py w = w\<lparr>active := True, waypoint_x := px, waypoint_y := py\<rparr>"

definition deactivate :: "waypoint \<Rightarrow> waypoint" where
  "deactivate w = w\<lparr>active := False\<rparr>"

definition is_active :: "waypoint \<Rightarrow> bool" where
  "is_active w = active w"

record home =
  home_x :: real
  home_y :: real
  home_size :: real

definition contains :: "home \<Rightarrow> real \<Rightarrow> real \<Rightarrow> bool" where
  "contains h px py =
     (let x1 = home_x h - home_size h / 2; x2 = home_x h + home_size h / 2;
          y1 = home_y h - home_size h / 2; y2 = home_y h + home_size h / 2
      in x1 \<le> px \<and> px \<le> x2 \<and> y1 \<le> py \<and> py \<le> y2)"

subsection \<open>The player's turtle\<close>

text \<open>
  \<open>Player\<close> keeps its position in a \<open>RawTurtle\<close> of Python's standard library. Of the
  turtle only the position and the heading matter. The heading is kept as the unit vector
  the turtle moves along (the library's own \<open>_orient\<close>) instead of an angle, so
  \<open>towards\<close> returns that vector: the direction from the turtle to the target, and the
  direction of angle 0, \<open>(1, 0)\<close>, when the target is the turtle's own position
  (\<open>math.atan2(0, 0)\<close> is 0). \<open>forward\<close> adds \<open>distance\<close> times the heading and
  \<open>distance\<close> is the Euclidean distance.
\<close>

record turtle =
  xcor :: real
  ycor :: real
  orient :: "real \<times> real"

definition distance :: "turtle \<Rightarrow> real \<Rightarrow> real \<Rightarrow> real" where
  "distance t px py = sqrt ((px - xcor t)\<^sup>2 + (py - ycor t)\<^sup>2)"

definition towards :: "turtle \<Rightarrow> real \<Rightarrow> real \<Rightarrow> real \<times> real" where
  "towards t px py =
     (if px = xcor t \<and> py = ycor t then (1, 0)
      else ((px - xcor t) / distance t px py, (py - ycor t) / distance t px py))"

definition setheading :: "real \<times> real \<Rightarrow> turtle \<Rightarrow> turtle" where
  "setheading d t = t\<lparr>orient := d\<rparr>"

definition forward :: "real \<Rightarrow> turtle \<Rightarrow> turtle" where
  "forward d t = t\<lparr>xcor := xcor t + d * fst (orient t), ycor := ycor t + d * snd (orient t)\<rparr>"

record player =
  turtle :: turtle
  player_speed :: real

definition player_x :: "player \<Rightarrow> real" where
  "player_x p = xcor (turtle p)"

definition player_y :: "player \<Rightarrow> real" where
  "player_y p = ycor (turtle p)"

subsection \<open>Enemies\<close>

text \<open>
  Every enemy class adds its own attributes to those of \<open>Enemy\<close>; the class and its
  attributes are one constructor of \<open>enemy_state\<close>. The \<open>summoner\<close> of a minion is a
  reference to another enemy object: its address in the session's store of enemies.
  The position of an element is kept by \<open>gamelib.GameElement\<close>, which is not part of
  the source file; a new element is taken to be at \<open>(0, 0)\<close>, and every enemy is given
  its position by its creator before anything reads it.
\<close>

datatype enemy_state =
    ShakingEnemy (speed: real)
  | PursuitEnemy (speed: real)
  | AroundHomeEnemy (move_x: int) (move_y: int) (moving_x: bool) (moving_y: bool)
      (move_left: bool) (move_up: bool)
  | SummonEnemy (speed: real)
  | DiagonalMinionEnemy (speed: real) (summoner: nat) (choosing1: string) (choosing2: string)
  | StraightMinionEnemy (speed: real) (summoner: nat) (choosing: string)

record enemy =
  enemy_x :: real
  enemy_y :: real
  enemy_size :: real
  color :: string
  state :: enemy_state

subsection \<open>The session\<close>

text \<open>
  \<open>TurtleAdventureGame\<close> extends \<open>gamelib.Game\<close>, which is not part of the source file.
  The enemy objects live in \<open>store\<close> and are referred to by address, so that the list
  \<open>enemies\<close> of the session and the container \<open>elements\<close> of \<open>Game\<close> can share them.
\<close>

datatype element = WaypointRef | HomeRef | PlayerRef | EnemyRef nat

datatype callback = create_enemy_callback

record game =
  level :: int
  screen_width :: int
  screen_height :: int
  the_waypoint :: waypoint
  the_player :: player
  the_home :: home
  store :: "enemy list"
  enemies :: "nat list"
  elements :: "element list"
  is_running :: bool
  timers :: "(nat \<times> callback) list"
  canvas_texts :: "string list"

definition hits_player :: "game \<Rightarrow> enemy \<Rightarrow> bool" where
  "hits_player g e =
     ((enemy_x e - enemy_size e / 2 < player_x (the_player g)
        \<and> player_x (the_player g) < enemy_x e + enemy_size e / 2)
      \<and>
      (enemy_y e - enemy_size e / 2 < player_y (the_player g)
        \<and> player_y (the_player g) < enemy_y e + enemy_size e / 2))"

subsection \<open>What \<open>gamelib\<close> and \<open>tkinter\<close> provide\<close>

text \<open>
  Modelled from the spec: \<open>Game.add_element\<close> of \<open>gamelib\<close>, which is not in the source
  file. It registers the element with the shared container, which keeps its elements in
  insertion order.
\<close>

definition add_element :: "element \<Rightarrow> game \<Rightarrow> game" where
  "add_element el g = g\<lparr>elements := elements g @ [el]\<rparr>"

text \<open>
  Modelled from the spec: \<open>Game.stop\<close> of \<open>gamelib\<close>, which is not in the source file.
  It halts the per-frame update and render cycle: the container is no longer stepped.
\<close>

definition stop :: "game \<Rightarrow> game" where
  "stop g = g\<lparr>is_running := False\<rparr>"

text \<open>
  Modelled from the spec: \<open>Game.start\<close> of \<open>gamelib\<close>, which is not in the source file.
  It starts the per-frame cycle.
\<close>

definition start :: "game \<Rightarrow> game" where
  "start g = g\<lparr>is_running := True\<rparr>"

text \<open>
  \<open>after\<close> is the timer service of \<open>tkinter\<close>: the callback is recorded with its delay
  in milliseconds among the pending timers.
\<close>

definition after :: "nat \<Rightarrow> callback \<Rightarrow> game \<Rightarrow> game" where
  "after ms cb g = g\<lparr>timers := timers g @ [(ms, cb)]\<rparr>"

text \<open>\<open>canvas.create_text\<close>: the banner is recorded among the texts of the canvas.\<close>

definition create_text :: "string \<Rightarrow> game \<Rightarrow> game" where
  "create_text txt g = g\<lparr>canvas_texts := canvas_texts g @ [txt]\<rparr>"

subsection \<open>Randomness\<close>

text \<open>
  The module \<open>random\<close> is a stream of natural numbers, consumed one draw at a time.
  \<open>randint a b\<close> yields an integer of \<open>[a, b]\<close> and raises \<open>ValueError\<close> on an empty
  range; \<open>choice\<close> yields an element of the list and raises \<open>IndexError\<close> on an empty
  list. A raised exception is \<open>None\<close>.
\<close>

type_synonym rng = "nat \<Rightarrow> nat"

definition advance :: "rng \<Rightarrow> rng" where
  "advance r = (\<lambda>n. r (Suc n))"

definition randint :: "int \<Rightarrow> int \<Rightarrow> rng \<Rightarrow> (int \<times> rng) option" where
  "randint a b r =
     (if b < a then None else Some (a + int (r 0 mod nat (b - a + 1)), advance r))"

definition choice :: "'a list \<Rightarrow> rng \<Rightarrow> ('a \<times> rng) option" where
  "choice xs r = (if xs = [] then None else Some (xs ! (r 0 mod length xs), advance r))"

section \<open>Session controller\<close>

definition game_over_win :: "game \<Rightarrow> game" where
  "game_over_win g = create_text ''You Win'' (stop g)"

definition game_over_lose :: "game \<Rightarrow> game" where
  "game_over_lose g = create_text ''You Lose'' (stop g)"

text \<open>
  The objects of the session's enemies are allocated in \<open>store\<close>; the address of a new
  object is the next free index.
\<close>

definition alloc :: "enemy \<Rightarrow> game \<Rightarrow> nat \<times> game" where
  "alloc e g = (length (store g), g\<lparr>store := store g @ [e]\<rparr>)"

definition add_enemy :: "nat \<Rightarrow> game \<Rightarrow> game" where
  "add_enemy a g = add_element (EnemyRef a) (g\<lparr>enemies := enemies g @ [a]\<rparr>)"

section \<open>Player\<close>

definition Player_update :: "game \<Rightarrow> game" where
  "Player_update g =
     (let g1 = (if contains (the_home g) (player_x (the_player g)) (player_y (the_player g))
                then game_over_win g else g);
          t = turtle (the_player g1);
          w = the_waypoint g1
      in if is_active w then
           let t1 = setheading (towards t (waypoint_x w) (waypoint_y w)) t;
               t2 = forward (player_speed (the_player g1)) t1;
               g2 = g1\<lparr>the_player := (the_player g1)\<lparr>turtle := t2\<rparr>\<rparr>
           in if distance t2 (waypoint_x w) (waypoint_y w) < player_speed (the_player g1)
              then g2\<lparr>the_waypoint := deactivate w\<rparr>
              else g2
         else g1)"

section \<open>Enemy behaviours\<close>

text \<open>
  An \<open>update\<close> method of an enemy reads the player's position, mutates the enemy itself
  and may call \<open>game_over_lose\<close>. Its embedding returns the enemy as mutated, and
  whether it called \<open>game_over_lose\<close>.
\<close>

fun set_speed :: "real \<Rightarrow> enemy_state \<Rightarrow> enemy_state" where
  "set_speed v (ShakingEnemy _) = ShakingEnemy v"
| "set_speed v (PursuitEnemy _) = PursuitEnemy v"
| "set_speed v (SummonEnemy _) = SummonEnemy v"
| "set_speed v (DiagonalMinionEnemy _ sm c1 c2) = DiagonalMinionEnemy v sm c1 c2"
| "set_speed v (StraightMinionEnemy _ sm c) = StraightMinionEnemy v sm c"
| "set_speed v (AroundHomeEnemy mx my gx gy ml mu) = AroundHomeEnemy mx my gx gy ml mu"

definition enemy_speed :: "enemy \<Rightarrow> real" where
  "enemy_speed e = speed (state e)"

definition with_speed :: "real \<Rightarrow> enemy \<Rightarrow> enemy" where
  "with_speed v e = e\<lparr>state := set_speed v (state e)\<rparr>"

subsection \<open>ShakingEnemy\<close>

definition new_ShakingEnemy :: "real \<Rightarrow> string \<Rightarrow> enemy" where
  "new_ShakingEnemy sz col =
     \<lparr>enemy_x = 0, enemy_y = 0, enemy_size = sz, color = col, state = ShakingEnemy 2.5\<rparr>"

definition draw_position :: "int \<Rightarrow> int \<Rightarrow> int \<Rightarrow> int \<Rightarrow> enemy \<Rightarrow> rng \<Rightarrow> (enemy \<times> rng) option" where
  "draw_position xl xh yl yh e r =
     do {
       (nx, r1) \<leftarrow> randint xl xh r;
       (ny, r2) \<leftarrow> randint yl yh r1;
       Some (e\<lparr>enemy_x := of_int nx, enemy_y := of_int ny\<rparr>, r2)
     }"

definition ShakingEnemy_update :: "game \<Rightarrow> enemy \<Rightarrow> rng \<Rightarrow> ((enemy \<times> bool) \<times> rng) option" where
  "ShakingEnemy_update g e0 r =
     (let e = with_speed (enemy_speed e0 + 0.01) e0;
          s = enemy_speed e; ex = enemy_x e; ey = enemy_y e
      in do {
        (e', r') \<leftarrow>
          (if ex \<ge> 0 \<and> ex \<le> 800 then
             (if ey \<ge> 0 \<and> ey \<le> 500 then
                draw_position \<lfloor>ex - s\<rfloor> \<lceil>ex + s\<rceil> \<lfloor>ey - s\<rfloor> \<lceil>ey + s\<rceil> e r
              else if ey \<le> 0 then
                draw_position \<lfloor>ex - s\<rfloor> \<lceil>ex + s\<rceil> \<lfloor>ey\<rfloor> \<lceil>ey + s\<rceil> e r
              else
                draw_position \<lfloor>ex - s\<rfloor> \<lceil>ex + s\<rceil> \<lfloor>ey - s\<rfloor> \<lceil>ey\<rceil> e r)
           else if ex \<le> 0 then
             (if ey \<ge> 0 \<and> ey \<le> 500 then
                draw_position \<lfloor>ex\<rfloor> \<lceil>ex + s\<rceil> \<lfloor>ey - s\<rfloor> \<lceil>ey + s\<rceil> e r
              else if ey \<le> 0 then
                draw_position \<lfloor>ex\<rfloor> \<lceil>ex + s\<rceil> \<lfloor>ey\<rfloor> \<lceil>ey + s\<rceil> e r
              else
                draw_position \<lfloor>ex\<rfloor> \<lceil>ex + s\<rceil> \<lfloor>ey - s\<rfloor> \<lceil>ey\<rceil> e r)
           else
             (if ey \<ge> 0 \<and> ey \<le> 500 then
                draw_position \<lfloor>ex - s\<rfloor> \<lceil>ex\<rceil> \<lfloor>ey - s\<rfloor> \<lceil>ey + s\<rceil> e r
              else if ey \<le> 0 then
                draw_position \<lfloor>ex - s\<rfloor> \<lceil>ex\<rceil> \<lfloor>ey\<rfloor> \<lceil>ey + s\<rceil> e r
              else
                draw_position \<lfloor>ex - s\<rfloor> \<lceil>ex\<rceil> \<lfloor>ey - s\<rfloor> \<lceil>ey\<rceil> e r));
        Some ((e', hits_player g e'), r')
      })"

subsection \<open>PursuitEnemy\<close>

definition new_PursuitEnemy :: "real \<Rightarrow> string \<Rightarrow> enemy" where
  "new_PursuitEnemy sz col =
     \<lparr>enemy_x = 0, enemy_y = 0, enemy_size = sz, color = col, state = PursuitEnemy 1\<rparr>"

definition PursuitEnemy_update :: "game \<Rightarrow> enemy \<Rightarrow> enemy \<times> bool" where
  "PursuitEnemy_update g e0 =
     (let e1 = with_speed (enemy_speed e0 + 0.01) e0;
          e2 = (if enemy_x e1 > player_x (the_player g)
                then e1\<lparr>enemy_x := enemy_x e1 - of_int \<lfloor>enemy_speed e1\<rfloor>\<rparr>
                else if enemy_x e1 = player_x (the_player g) then e1
                else e1\<lparr>enemy_x := enemy_x e1 + of_int \<lfloor>enemy_speed e1\<rfloor>\<rparr>);
          e3 = (if enemy_y e2 > player_y (the_player g)
                then e2\<lparr>enemy_y := enemy_y e2 - of_int \<lfloor>enemy_speed e2\<rfloor>\<rparr>
                else if enemy_y e2 = player_y (the_player g) then e2
                else e2\<lparr>enemy_y := enemy_y e2 + of_int \<lfloor>enemy_speed e2\<rfloor>\<rparr>)
      in (e3, hits_player g e3))"

subsection \<open>AroundHomeEnemy\<close>

definition new_AroundHomeEnemy :: "game \<Rightarrow> real \<Rightarrow> string \<Rightarrow> enemy" where
  "new_AroundHomeEnemy g sz col =
     \<lparr>enemy_x = home_x (the_home g) - 50, enemy_y = home_y (the_home g) - 50,
      enemy_size = sz, color = col,
      state = AroundHomeEnemy 0 0 True False True True\<rparr>"

definition AroundHomeEnemy_update :: "game \<Rightarrow> enemy \<Rightarrow> enemy \<times> bool" where
  "AroundHomeEnemy_update g e =
     (let mx = move_x (state e); my = move_y (state e);
          ml = move_left (state e); mu = move_up (state e);
          gx = moving_x (state e); gy = moving_y (state e);
          e' =
            (if gx then
               (if ml = False then
                  (if mx + 3 \<ge> 100
                   then e\<lparr>enemy_x := enemy_x e + 3, state := AroundHomeEnemy (mx + 3) my False True True mu\<rparr>
                   else e\<lparr>enemy_x := enemy_x e + 3, state := AroundHomeEnemy (mx + 3) my gx gy ml mu\<rparr>)
                else
                  (if mx - 3 \<le> 0
                   then e\<lparr>enemy_x := enemy_x e - 3, state := AroundHomeEnemy (mx - 3) my False True False mu\<rparr>
                   else e\<lparr>enemy_x := enemy_x e - 3, state := AroundHomeEnemy (mx - 3) my gx gy ml mu\<rparr>))
             else
               (if mu = False then
                  (if my + 3 \<ge> 100
                   then e\<lparr>enemy_y := enemy_y e + 3, state := AroundHomeEnemy mx (my + 3) True False ml True\<rparr>
                   else e\<lparr>enemy_y := enemy_y e + 3, state := AroundHomeEnemy mx (my + 3) gx gy ml mu\<rparr>)
                else
                  (if my - 3 \<le> 0
                   then e\<lparr>enemy_y := enemy_y e - 3, state := AroundHomeEnemy mx (my - 3) True False ml False\<rparr>
                   else e\<lparr>enemy_y := enemy_y e - 3, state := AroundHomeEnemy mx (my - 3) gx gy ml mu\<rparr>)))
      in (e', hits_player g e'))"

subsection \<open>SummonEnemy\<close>

definition new_SummonEnemy :: "real \<Rightarrow> string \<Rightarrow> enemy" where
  "new_SummonEnemy sz col =
     \<lparr>enemy_x = 0, enemy_y = 0, enemy_size = sz, color = col, state = SummonEnemy 1\<rparr>"

definition SummonEnemy_update :: "game \<Rightarrow> enemy \<Rightarrow> enemy \<times> bool" where
  "SummonEnemy_update g e1 =
     (let e2 = (if enemy_x e1 \<ge> player_x (the_player g)
                then e1\<lparr>enemy_x := enemy_x e1 - of_int \<lfloor>enemy_speed e1\<rfloor>\<rparr>
                else if enemy_x e1 = player_x (the_player g) then e1
                else e1\<lparr>enemy_x := enemy_x e1 + of_int \<lfloor>enemy_speed e1\<rfloor>\<rparr>);
          e3 = (if enemy_y e2 \<ge> player_y (the_player g)
                then e2\<lparr>enemy_y := enemy_y e2 - of_int \<lfloor>enemy_speed e2\<rfloor>\<rparr>
                else if enemy_y e2 = player_y (the_player g) then e2
                else e2\<lparr>enemy_y := enemy_y e2 + of_int \<lfloor>enemy_speed e2\<rfloor>\<rparr>)
      in (e3, hits_player g e3))"

subsection \<open>The minions\<close>

definition new_DiagonalMinionEnemy :: "real \<Rightarrow> string \<Rightarrow> nat \<Rightarrow> rng \<Rightarrow> (enemy \<times> rng) option" where
  "new_DiagonalMinionEnemy sz col sm r =
     do {
       (c1, r1) \<leftarrow> choice [''Up'', ''Down''] r;
       (c2, r2) \<leftarrow> choice [''Right'', ''Left''] r1;
       Some (\<lparr>enemy_x = 0, enemy_y = 0, enemy_size = sz, color = col,
              state = DiagonalMinionEnemy 2 sm c1 c2\<rparr>, r2)
     }"

text \<open>
  Both minion classes end their \<open>update\<close> with the same four-branch statement, which
  negates the speed once when \<open>x\<close> is at or beyond a vertical bound of the world and
  once more when \<open>y\<close> is at or beyond a horizontal one.
\<close>

definition bounce :: "enemy \<Rightarrow> enemy" where
  "bounce e3 =
     (let e4 = (if enemy_x e3 \<ge> 800 then with_speed (enemy_speed e3 * -1) e3
                else if enemy_x e3 \<le> 0 then with_speed (enemy_speed e3 * -1) e3
                else e3)
      in (if enemy_y e4 \<ge> 500 then with_speed (enemy_speed e4 * -1) e4
          else if enemy_y e4 \<le> 0 then with_speed (enemy_speed e4 * -1) e4
          else e4))"

text \<open>The movement of a frame: the statements of \<open>update\<close> before the collision test.\<close>

definition DiagonalMinionEnemy_move :: "enemy \<Rightarrow> enemy" where
  "DiagonalMinionEnemy_move e0 =
     (let e1 = with_speed (enemy_speed e0 + 0.4) e0;
          e2 = (if choosing1 (state e1) = ''Up''
                then e1\<lparr>enemy_y := enemy_y e1 + enemy_speed e1\<rparr>
                else e1\<lparr>enemy_y := enemy_y e1 - enemy_speed e1\<rparr>)
      in (if choosing2 (state e2) = ''Right''
          then e2\<lparr>enemy_x := enemy_x e2 + enemy_speed e2\<rparr>
          else e2\<lparr>enemy_x := enemy_x e2 - enemy_speed e2\<rparr>))"

definition DiagonalMinionEnemy_update :: "game \<Rightarrow> enemy \<Rightarrow> enemy \<times> bool" where
  "DiagonalMinionEnemy_update g e0 =
     (let e3 = DiagonalMinionEnemy_move e0;
          lose = hits_player g e3
      in (bounce e3, lose))"

definition new_StraightMinionEnemy :: "real \<Rightarrow> string \<Rightarrow> nat \<Rightarrow> rng \<Rightarrow> (enemy \<times> rng) option" where
  "new_StraightMinionEnemy sz col sm r =
     do {
       (c, r1) \<leftarrow> choice [''Up'', ''Down'', ''Right'', ''Left''] r;
       Some (\<lparr>enemy_x = 0, enemy_y = 0, enemy_size = sz, color = col,
              state = StraightMinionEnemy 2 sm c\<rparr>, r1)
     }"

definition StraightMinionEnemy_move :: "enemy \<Rightarrow> enemy" where
  "StraightMinionEnemy_move e0 =
     (let e1 = with_speed (enemy_speed e0 + 0.4) e0
      in (if choosing (state e1) = ''Right''
          then e1\<lparr>enemy_x := enemy_x e1 + of_int \<lfloor>enemy_speed e1\<rfloor>\<rparr>
          else if choosing (state e1) = ''Left''
          then e1\<lparr>enemy_x := enemy_x e1 - of_int \<lfloor>enemy_speed e1\<rfloor>\<rparr>
          else if choosing (state e1) = ''Up''
          then e1\<lparr>enemy_y := enemy_y e1 + of_int \<lfloor>enemy_speed e1\<rfloor>\<rparr>
          else e1\<lparr>enemy_y := enemy_y e1 - of_int \<lfloor>enemy_speed e1\<rfloor>\<rparr>))"

definition StraightMinionEnemy_update :: "game \<Rightarrow> enemy \<Rightarrow> enemy \<times> bool" where
  "StraightMinionEnemy_update g e0 =
     (let e2 = StraightMinionEnemy_move e0;
          lose = hits_player g e2
      in (bounce e2, lose))"

text \<open>The \<open>update\<close> of an enemy object is the method of its class.\<close>

definition update_enemy :: "game \<Rightarrow> enemy \<Rightarrow> rng \<Rightarrow> ((enemy \<times> bool) \<times> rng) option" where
  "update_enemy g e r =
     (case state e of
        ShakingEnemy _ \<Rightarrow> ShakingEnemy_update g e r
      | PursuitEnemy _ \<Rightarrow> Some (PursuitEnemy_update g e, r)
      | AroundHomeEnemy _ _ _ _ _ _ \<Rightarrow> Some (AroundHomeEnemy_update g e, r)
      | SummonEnemy _ \<Rightarrow> Some (SummonEnemy_update g e, r)
      | DiagonalMinionEnemy _ _ _ _ \<Rightarrow> Some (DiagonalMinionEnemy_update g e, r)
      | StraightMinionEnemy _ _ _ \<Rightarrow> Some (StraightMinionEnemy_update g e, r))"

section \<open>Enemy spawn scheduler\<close>

definition new_EnemyGenerator :: "game \<Rightarrow> game" where
  "new_EnemyGenerator g = after 100 create_enemy_callback g"

definition create_summon :: "int \<Rightarrow> int \<Rightarrow> nat \<Rightarrow> game \<Rightarrow> rng \<Rightarrow> (game \<times> rng) option" where
  "create_summon sx sy sm g r =
     do {
       (new_enemy_dm, r1) \<leftarrow> new_DiagonalMinionEnemy 10 ''pink'' sm r;
       (dx, r2) \<leftarrow> randint (sx - 10) (sx + 10) r1;
       (dy, r3) \<leftarrow> randint (sy - 10) (sy + 10) r2;
       let (a1, g1) = alloc (new_enemy_dm\<lparr>enemy_x := of_int dx, enemy_y := of_int dy\<rparr>) g;
       let g2 = add_element (EnemyRef a1) g1;
       (new_enemy_sm, r4) \<leftarrow> new_StraightMinionEnemy 10 ''pink'' sm r3;
       (tx, r5) \<leftarrow> randint (sx - 10) (sx + 10) r4;
       (ty, r6) \<leftarrow> randint (sy - 10) (sy + 10) r5;
       let (a2, g3) = alloc (new_enemy_sm\<lparr>enemy_x := of_int tx, enemy_y := of_int ty\<rparr>) g2;
       Some (add_element (EnemyRef a2) g3, r6)
     }"

text \<open>The loop \<open>for i in range(6)\<close> of \<open>create_enemy\<close>, by the number of rounds left.\<close>

fun create_summons :: "nat \<Rightarrow> int \<Rightarrow> int \<Rightarrow> nat \<Rightarrow> game \<Rightarrow> rng \<Rightarrow> (game \<times> rng) option" where
  "create_summons 0 sx sy sm g r = Some (g, r)"
| "create_summons (Suc n) sx sy sm g r =
     do {
       (g1, r1) \<leftarrow> create_summon sx sy sm g r;
       create_summons n sx sy sm g1 r1
     }"

definition create_enemy :: "game \<Rightarrow> rng \<Rightarrow> (game \<times> rng) option" where
  "create_enemy g r =
     do {
       (rx, r1) \<leftarrow> randint 200 800 r;
       (ry, r2) \<leftarrow> randint 0 400 r1;
       let (ar, g1) = alloc ((new_ShakingEnemy 20 ''red'')\<lparr>enemy_x := of_int rx, enemy_y := of_int ry\<rparr>) g;
       let g2 = add_element (EnemyRef ar) g1;
       (px, r3) \<leftarrow> randint 200 800 r2;
       (py, r4) \<leftarrow> randint 0 400 r3;
       let (ap, g3) = alloc ((new_PursuitEnemy 10 ''yellow'')\<lparr>enemy_x := of_int px, enemy_y := of_int py\<rparr>) g2;
       let g4 = add_element (EnemyRef ap) g3;
       let (aa, g5) = alloc ((new_AroundHomeEnemy g4 25 ''blue'')
                         \<lparr>enemy_x := home_x (the_home g4) - 50, enemy_y := home_y (the_home g4) - 50\<rparr>) g4;
       let g6 = add_element (EnemyRef aa) g5;
       (sx, r5) \<leftarrow> randint 200 800 r4;
       (sy, r6) \<leftarrow> randint 0 400 r5;
       let (as, g7) = alloc ((new_SummonEnemy 35 ''green'')\<lparr>enemy_x := of_int sx, enemy_y := of_int sy\<rparr>) g6;
       let g8 = add_element (EnemyRef as) g7;
       (g9, r7) \<leftarrow> create_summons 6 sx sy as g8 r6;
       Some (after 3000 create_enemy_callback g9, r7)
     }"

text \<open>
  A pending timer fires: \<open>tkinter\<close> takes the oldest one from the pending timers and
  runs its callback.
\<close>

definition fire :: "game \<Rightarrow> rng \<Rightarrow> (game \<times> rng) option" where
  "fire g r =
     (case timers g of
        [] \<Rightarrow> Some (g, r)
      | (ms, create_enemy_callback) # ts \<Rightarrow> create_enemy (g\<lparr>timers := ts\<rparr>) r)"

section \<open>Initialisation and the frame cycle\<close>

definition init_game :: "game \<Rightarrow> game" where
  "init_game g0 =
     (let t = \<lparr>xcor = 0, ycor = 0, orient = (1, 0)\<rparr>;
          g1 = add_element WaypointRef
                 (g0\<lparr>the_waypoint := \<lparr>waypoint_x = 0, waypoint_y = 0, active = False\<rparr>\<rparr>);
          g2 = add_element HomeRef
                 (g1\<lparr>the_home := \<lparr>home_x = of_int (screen_width g1 - 100),
                                    home_y = of_int (screen_height g1 div 2), home_size = 20\<rparr>\<rparr>);
          g3 = add_element PlayerRef (g2\<lparr>the_player := \<lparr>turtle = t, player_speed = 5\<rparr>\<rparr>);
          g4 = new_EnemyGenerator g3;
          p = the_player g4
      in g4\<lparr>the_player := p\<lparr>turtle := (turtle p)\<lparr>xcor := 50,
                                 ycor := of_int (screen_height g4 div 2)\<rparr>\<rparr>\<rparr>)"

text \<open>
  Modelled from the spec: the construction of \<open>gamelib.Game\<close>, which is not in the
  source file. The session starts with an empty container, not yet running, and is
  initialised by \<open>init_game\<close>.
\<close>

definition TurtleAdventureGame :: "int \<Rightarrow> int \<Rightarrow> int \<Rightarrow> game" where
  "TurtleAdventureGame w h lvl =
     init_game
       \<lparr>level = lvl, screen_width = w, screen_height = h,
        the_waypoint = \<lparr>waypoint_x = 0, waypoint_y = 0, active = False\<rparr>,
        the_player = \<lparr>turtle = \<lparr>xcor = 0, ycor = 0, orient = (1, 0)\<rparr>, player_speed = 5\<rparr>,
        the_home = \<lparr>home_x = 0, home_y = 0, home_size = 0\<rparr>,
        store = [], enemies = [], elements = [], is_running = False,
        timers = [], canvas_texts = []\<rparr>"

text \<open>The handler bound to the left click of the pointer.\<close>

definition click :: "real \<Rightarrow> real \<Rightarrow> game \<Rightarrow> game" where
  "click cx cy g = g\<lparr>the_waypoint := activate cx cy (the_waypoint g)\<rparr>"

text \<open>
  The container calls \<open>update\<close> on an element. An enemy is updated in place in the
  store; a reference outside the store is an error (\<open>add_element\<close> is only ever given
  references to allocated objects).
\<close>

definition update_element :: "element \<Rightarrow> game \<Rightarrow> rng \<Rightarrow> (game \<times> rng) option" where
  "update_element el g r =
     (case el of
        WaypointRef \<Rightarrow> Some (g, r)
      | HomeRef \<Rightarrow> Some (g, r)
      | PlayerRef \<Rightarrow> Some (Player_update g, r)
      | EnemyRef a \<Rightarrow>
          (if a < length (store g) then
             do {
               ((e', lose), r') \<leftarrow> update_enemy g (store g ! a) r;
               let g1 = g\<lparr>store := (store g)[a := e']\<rparr>;
               Some (if lose then game_over_lose g1 else g1, r')
             }
           else None))"

fun update_all :: "element list \<Rightarrow> game \<Rightarrow> rng \<Rightarrow> (game \<times> rng) option" where
  "update_all [] g r = Some (g, r)"
| "update_all (el # els) g r =
     do {
       (g1, r1) \<leftarrow> update_element el g r;
       update_all els g1 r1
     }"

text \<open>
  Modelled from the spec: the frame tick of \<open>gamelib.Game\<close>, which is not in the source
  file. While the cycle runs, a tick updates every registered element in insertion
  order; once the cycle is halted the container is no longer stepped.
\<close>

definition tick :: "game \<Rightarrow> rng \<Rightarrow> (game \<times> rng) option" where
  "tick g r = (if is_running g then update_all (elements g) g r else Some (g, r))"

text \<open>The positions of the player and of every enemy object of the session.\<close>

definition positions :: "game \<Rightarrow> (real \<times> real) \<times> (real \<times> real) list" where
  "positions g =
     ((player_x (the_player g), player_y (the_player g)),
      map (\<lambda>e. (enemy_x e, enemy_y e)) (store g))"

section \<open>Auxiliary notions and example states\<close>

text \<open>The session of the reference instance: an 800 by 500 world at level 1.\<close>

definition example_game :: game where
  "example_game = TurtleAdventureGame 800 500 1"

text \<open>An enemy of size 20 whose right edge passes through the player's start position.\<close>

definition touching_enemy :: enemy where
  "touching_enemy = (new_PursuitEnemy 20 ''yellow'')\<lparr>enemy_x := 40, enemy_y := 250\<rparr>"









text \<open>A summoner standing exactly on the player's start position.\<close>

definition summoner_on_player :: enemy where
  "summoner_on_player = (new_SummonEnemy 35 ''green'')\<lparr>enemy_x := 50, enemy_y := 250\<rparr>"

text \<open>
  The running session after a click at \<open>(780, 250)\<close>, with the player on its way along
  \<open>y = 250\<close> and just arrived at the left edge of Home.
\<close>

definition reaching_home :: game where
  "reaching_home =
     (click 780 250 (start example_game))
       \<lparr>the_player := \<lparr>turtle = \<lparr>xcor = 690, ycor = 250, orient = (1, 0)\<rparr>, player_speed = 5\<rparr>\<rparr>"

text \<open>The running session after a click on the player's own position, and after one 3 units to its right.\<close>

definition click_on_player :: game where
  "click_on_player = click 50 250 (start example_game)"

definition click_nearby :: game where
  "click_nearby = click 53 250 (start example_game)"

text \<open>A number of consecutive frame ticks.\<close>

fun ticks :: "nat \<Rightarrow> game \<Rightarrow> rng \<Rightarrow> (game \<times> rng) option" where
  "ticks 0 g r = Some (g, r)"
| "ticks (Suc n) g r = do { (g1, r1) \<leftarrow> tick g r; ticks n g1 r1 }"

text \<open>A number of consecutive frames of one patrol enemy.\<close>

fun AroundHomeEnemy_frames :: "nat \<Rightarrow> game \<Rightarrow> enemy \<Rightarrow> enemy" where
  "AroundHomeEnemy_frames 0 g e = e"
| "AroundHomeEnemy_frames (Suc n) g e =
     fst (AroundHomeEnemy_update g (AroundHomeEnemy_frames n g e))"

text \<open>A patrol enemy of the size and colour \<open>create_enemy\<close> gives it.\<close>

definition patroller :: "real \<Rightarrow> real \<Rightarrow> enemy_state \<Rightarrow> enemy" where
  "patroller px py st =
     \<lparr>enemy_x = px, enemy_y = py, enemy_size = 25, color = ''blue'', state = st\<rparr>"

definition patrol_start :: enemy where
  "patrol_start = new_AroundHomeEnemy example_game 25 ''blue''"

text \<open>The name of the class of an enemy object.\<close>

fun class_name :: "enemy_state \<Rightarrow> string" where
  "class_name (ShakingEnemy _) = ''ShakingEnemy''"
| "class_name (PursuitEnemy _) = ''PursuitEnemy''"
| "class_name (AroundHomeEnemy _ _ _ _ _ _) = ''AroundHomeEnemy''"
| "class_name (SummonEnemy _) = ''SummonEnemy''"
| "class_name (DiagonalMinionEnemy _ _ _ _) = ''DiagonalMinionEnemy''"
| "class_name (StraightMinionEnemy _ _ _) = ''StraightMinionEnemy''"

definition class_of :: "enemy \<Rightarrow> string" where
  "class_of e = class_name (state e)"

text \<open>A source of random numbers: the one whose every draw is 0.\<close>

definition zero_rng :: rng where
  "zero_rng = (\<lambda>n. 0)"

text \<open>The enemy objects that one firing of the scheduler adds to the store.\<close>

definition spawned :: "game \<Rightarrow> rng \<Rightarrow> enemy list" where
  "spawned g r =
     (case create_enemy g r of
        None \<Rightarrow> []
      | Some (g', r') \<Rightarrow> drop (length (store g)) (store g'))"

text \<open>Within 10 units, on each axis, of the position \<open>(sx, sy)\<close>.\<close>

definition near :: "int \<Rightarrow> int \<Rightarrow> enemy \<Rightarrow> bool" where
  "near sx sy m = (\<bar>enemy_x m - of_int sx\<bar> \<le> 10 \<and> \<bar>enemy_y m - of_int sy\<bar> \<le> 10)"

section \<open>Verified properties\<close>

lemma example_game_player:
  "player_x (the_player example_game) = 50" "player_y (the_player example_game) = 250"
  by (simp_all add: example_game_def TurtleAdventureGame_def init_game_def Let_def
      add_element_def new_EnemyGenerator_def after_def player_x_def player_y_def)

lemma example_game_eq:
  "example_game =
     \<lparr>level = 1, screen_width = 800, screen_height = 500,
      the_waypoint = \<lparr>waypoint_x = 0, waypoint_y = 0, active = False\<rparr>,
      the_player = \<lparr>turtle = \<lparr>xcor = 50, ycor = 250, orient = (1, 0)\<rparr>, player_speed = 5\<rparr>,
      the_home = \<lparr>home_x = 700, home_y = 250, home_size = 20\<rparr>,
      store = [], enemies = [], elements = [WaypointRef, HomeRef, PlayerRef],
      is_running = False, timers = [(100, create_enemy_callback)], canvas_texts = []\<rparr>"
  by (simp add: example_game_def TurtleAdventureGame_def init_game_def Let_def
      add_element_def new_EnemyGenerator_def after_def)

lemma reaching_home_eq:
  "reaching_home =
     \<lparr>level = 1, screen_width = 800, screen_height = 500,
      the_waypoint = \<lparr>waypoint_x = 780, waypoint_y = 250, active = True\<rparr>,
      the_player = \<lparr>turtle = \<lparr>xcor = 690, ycor = 250, orient = (1, 0)\<rparr>, player_speed = 5\<rparr>,
      the_home = \<lparr>home_x = 700, home_y = 250, home_size = 20\<rparr>,
      store = [], enemies = [], elements = [WaypointRef, HomeRef, PlayerRef],
      is_running = True, timers = [(100, create_enemy_callback)], canvas_texts = []\<rparr>"
  by (simp add: reaching_home_def example_game_eq click_def start_def activate_def)

lemma click_on_player_eq:
  "click_on_player =
     \<lparr>level = 1, screen_width = 800, screen_height = 500,
      the_waypoint = \<lparr>waypoint_x = 50, waypoint_y = 250, active = True\<rparr>,
      the_player = \<lparr>turtle = \<lparr>xcor = 50, ycor = 250, orient = (1, 0)\<rparr>, player_speed = 5\<rparr>,
      the_home = \<lparr>home_x = 700, home_y = 250, home_size = 20\<rparr>,
      store = [], enemies = [], elements = [WaypointRef, HomeRef, PlayerRef],
      is_running = True, timers = [(100, create_enemy_callback)], canvas_texts = []\<rparr>"
  by (simp add: click_on_player_def example_game_eq click_def start_def activate_def)

lemma click_nearby_eq:
  "click_nearby =
     \<lparr>level = 1, screen_width = 800, screen_height = 500,
      the_waypoint = \<lparr>waypoint_x = 53, waypoint_y = 250, active = True\<rparr>,
      the_player = \<lparr>turtle = \<lparr>xcor = 50, ycor = 250, orient = (1, 0)\<rparr>, player_speed = 5\<rparr>,
      the_home = \<lparr>home_x = 700, home_y = 250, home_size = 20\<rparr>,
      store = [], enemies = [], elements = [WaypointRef, HomeRef, PlayerRef],
      is_running = True, timers = [(100, create_enemy_callback)], canvas_texts = []\<rparr>"
  by (simp add: click_nearby_def example_game_eq click_def start_def activate_def)

subsection \<open>Collision test\<close>

text \<open>
  C1. \<open>hits_player\<close> is true exactly when the player's point lies strictly inside the
  square of side \<open>size\<close> centred on the enemy: on both axes the player is at a distance
  of less than \<open>size / 2\<close> from the enemy. A player at distance exactly \<open>size / 2\<close> on
  either axis, on the boundary of the square, is not hit.
\<close>

theorem hits_player_strictly_inside:
  "(hits_player g e \<longleftrightarrow>
      (enemy_x e - enemy_size e / 2 < player_x (the_player g)
        \<and> player_x (the_player g) < enemy_x e + enemy_size e / 2
        \<and> enemy_y e - enemy_size e / 2 < player_y (the_player g)
        \<and> player_y (the_player g) < enemy_y e + enemy_size e / 2))
   \<and> (hits_player g e \<longleftrightarrow>
      \<bar>player_x (the_player g) - enemy_x e\<bar> < enemy_size e / 2
      \<and> \<bar>player_y (the_player g) - enemy_y e\<bar> < enemy_size e / 2)
   \<and> (\<bar>player_x (the_player g) - enemy_x e\<bar> = enemy_size e / 2
       \<or> \<bar>player_y (the_player g) - enemy_y e\<bar> = enemy_size e / 2
      \<longrightarrow> \<not> hits_player g e)"
  unfolding hits_player_def by (auto simp: abs_if split: if_splits)

theorem hits_player_strictly_inside_witness:
  "\<bar>player_x (the_player example_game) - enemy_x touching_enemy\<bar> = enemy_size touching_enemy / 2
   \<and> \<not> hits_player example_game touching_enemy"
  using hits_player_strictly_inside [of example_game touching_enemy]
  by (simp add: example_game_player touching_enemy_def new_PursuitEnemy_def)

subsection \<open>Minions\<close>

lemma with_speed_fields [simp]:
  "enemy_x (with_speed v e) = enemy_x e"
  "enemy_y (with_speed v e) = enemy_y e"
  "enemy_size (with_speed v e) = enemy_size e"
  "color (with_speed v e) = color e"
  by (simp_all add: with_speed_def)

lemma with_speed_speed [simp]:
  "\<not> is_AroundHomeEnemy (state e) \<Longrightarrow> enemy_speed (with_speed v e) = v"
  by (cases "state e") (simp_all add: with_speed_def enemy_speed_def)

lemma with_speed_class [simp]:
  "is_AroundHomeEnemy (state (with_speed v e)) = is_AroundHomeEnemy (state e)"
  "is_DiagonalMinionEnemy (state (with_speed v e)) = is_DiagonalMinionEnemy (state e)"
  "is_StraightMinionEnemy (state (with_speed v e)) = is_StraightMinionEnemy (state e)"
  by (cases "state e"; simp add: with_speed_def)+

lemma with_speed_choosing [simp]:
  "is_DiagonalMinionEnemy (state e) \<Longrightarrow> choosing1 (state (with_speed v e)) = choosing1 (state e)"
  "is_DiagonalMinionEnemy (state e) \<Longrightarrow> choosing2 (state (with_speed v e)) = choosing2 (state e)"
  "is_StraightMinionEnemy (state e) \<Longrightarrow> choosing (state (with_speed v e)) = choosing (state e)"
  by (cases "state e"; simp add: with_speed_def)+

lemma enemy_speed_moved [simp]:
  "enemy_speed (e\<lparr>enemy_x := v\<rparr>) = enemy_speed e"
  "enemy_speed (e\<lparr>enemy_y := v\<rparr>) = enemy_speed e"
  by (simp_all add: enemy_speed_def)


lemma bounce_fields [simp]:
  "enemy_x (bounce e) = enemy_x e"
  "enemy_y (bounce e) = enemy_y e"
  by (simp_all add: bounce_def Let_def)

lemma bounce_class [simp]:
  "is_DiagonalMinionEnemy (state (bounce e)) = is_DiagonalMinionEnemy (state e)"
  "is_StraightMinionEnemy (state (bounce e)) = is_StraightMinionEnemy (state e)"
  by (simp_all add: bounce_def Let_def)

lemma bounce_choosing [simp]:
  "is_DiagonalMinionEnemy (state e) \<Longrightarrow> choosing1 (state (bounce e)) = choosing1 (state e)"
  "is_DiagonalMinionEnemy (state e) \<Longrightarrow> choosing2 (state (bounce e)) = choosing2 (state e)"
  "is_StraightMinionEnemy (state e) \<Longrightarrow> choosing (state (bounce e)) = choosing (state e)"
  by (simp_all add: bounce_def Let_def)













subsection \<open>Summoner\<close>

text \<open>
  What one update of a summoner does to each coordinate: a step of \<open>floor(speed)\<close>
  towards smaller values when the coordinate is at or above the player's, towards
  larger values otherwise; the speed is not changed. The branch for equal coordinates
  is never taken.
\<close>

lemma SummonEnemy_update_fields:
  "enemy_x (fst (SummonEnemy_update g e)) =
     (if enemy_x e \<ge> player_x (the_player g) then enemy_x e - of_int \<lfloor>enemy_speed e\<rfloor>
      else enemy_x e + of_int \<lfloor>enemy_speed e\<rfloor>)"
  "enemy_y (fst (SummonEnemy_update g e)) =
     (if enemy_y e \<ge> player_y (the_player g) then enemy_y e - of_int \<lfloor>enemy_speed e\<rfloor>
      else enemy_y e + of_int \<lfloor>enemy_speed e\<rfloor>)"
  "state (fst (SummonEnemy_update g e)) = state e"
  by (simp_all add: SummonEnemy_update_def Let_def)

text \<open>
  C4. The update at overlap: a summoner whose coordinates both equal the player's, with
  the speed 1 of its constructor, is moved by the update to one unit below the player's
  coordinate on each axis. The coordinates are not left unchanged.
\<close>

theorem SummonEnemy_update_on_overlap:
  "player_x (the_player example_game) = enemy_x summoner_on_player
   \<and> player_y (the_player example_game) = enemy_y summoner_on_player
   \<and> enemy_speed summoner_on_player = 1
   \<and> fst (SummonEnemy_update example_game summoner_on_player) =
       summoner_on_player\<lparr>enemy_x := 49, enemy_y := 249\<rparr>"
  by (simp add: example_game_eq summoner_on_player_def new_SummonEnemy_def
      SummonEnemy_update_def Let_def player_x_def player_y_def enemy_speed_def)

subsection \<open>Player\<close>

lemma distance_horizontal: "ycor t = py \<Longrightarrow> distance t px py = \<bar>px - xcor t\<bar>"
  by (simp add: distance_def)

lemma distance_nonneg [simp]: "0 \<le> distance t px py"
  by (simp add: distance_def)

lemma distance_zero_iff: "distance t px py = 0 \<longleftrightarrow> px = xcor t \<and> py = ycor t"
  by (simp add: distance_def add_nonneg_eq_0_iff)

lemma distance_after_step:
  fixes a b s d :: real
  assumes d: "0 < d" and dd: "d = sqrt (a\<^sup>2 + b\<^sup>2)"
  shows "sqrt ((a - s * (a / d))\<^sup>2 + (b - s * (b / d))\<^sup>2) = \<bar>d - s\<bar>"
proof -
  have sq: "d\<^sup>2 = a\<^sup>2 + b\<^sup>2"
    using dd by simp
  have ab: "a - s * (a / d) = (1 - s / d) * a" "b - s * (b / d) = (1 - s / d) * b"
    by (simp_all add: left_diff_distrib)
  have "(a - s * (a / d))\<^sup>2 + (b - s * (b / d))\<^sup>2 = (1 - s / d)\<^sup>2 * (a\<^sup>2 + b\<^sup>2)"
    unfolding ab by (simp only: power_mult_distrib distrib_left)
  also have "\<dots> = (1 - s / d)\<^sup>2 * d\<^sup>2"
    by (simp add: sq)
  also have "\<dots> = ((1 - s / d) * d)\<^sup>2"
    by (simp add: power_mult_distrib)
  also have "(1 - s / d) * d = d - s"
    using d by (simp add: field_simps)
  finally show ?thesis
    by simp
qed

text \<open>
  C5, as the code has it. One update of the player first tests whether Home contains
  the player's position and, if so, signals the win (the cycle is halted and the banner
  is drawn). Whatever the outcome of that test, the player then advances by
  \<open>speed\<close> along the heading towards the waypoint if the waypoint is active, and
  stays where it is if the waypoint is inactive.
\<close>

theorem Player_update_wins_and_moves:
  "is_running (Player_update g) =
     (is_running g \<and> \<not> contains (the_home g) (player_x (the_player g)) (player_y (the_player g)))
   \<and> canvas_texts (Player_update g) =
     (if contains (the_home g) (player_x (the_player g)) (player_y (the_player g))
      then canvas_texts g @ [''You Win''] else canvas_texts g)
   \<and> player_x (the_player (Player_update g)) =
     (if is_active (the_waypoint g)
      then player_x (the_player g) + player_speed (the_player g) *
           fst (towards (turtle (the_player g)) (waypoint_x (the_waypoint g)) (waypoint_y (the_waypoint g)))
      else player_x (the_player g))
   \<and> player_y (the_player (Player_update g)) =
     (if is_active (the_waypoint g)
      then player_y (the_player g) + player_speed (the_player g) *
           snd (towards (turtle (the_player g)) (waypoint_x (the_waypoint g)) (waypoint_y (the_waypoint g)))
      else player_y (the_player g))"
  by (simp add: Player_update_def Let_def game_over_win_def create_text_def stop_def
      setheading_def forward_def player_x_def player_y_def)

text \<open>
  The update that refutes C5 as stated: the player stands at \<open>(690, 250)\<close>, inside
  Home, with the waypoint active at \<open>(780, 250)\<close>. The update signals the win and
  moves the player to \<open>(695, 250)\<close> in the same tick.
\<close>

theorem Player_update_moves_on_win_counterexample:
  "is_running reaching_home
   \<and> is_active (the_waypoint reaching_home)
   \<and> player_x (the_player reaching_home) = 690
   \<and> player_y (the_player reaching_home) = 250
   \<and> contains (the_home reaching_home) 690 250
   \<and> \<not> is_running (Player_update reaching_home)
   \<and> canvas_texts (Player_update reaching_home) = [''You Win'']
   \<and> player_x (the_player (Player_update reaching_home)) = 695
   \<and> player_y (the_player (Player_update reaching_home)) = 250"
  by (simp add: reaching_home_eq Player_update_def Let_def game_over_win_def create_text_def
      stop_def setheading_def forward_def player_x_def player_y_def contains_def is_active_def
      towards_def distance_horizontal)


text \<open>
  C6, as the code has it. For an active waypoint \<open>W\<close> and a player at \<open>P\<close> outside
  Home with \<open>0 < distance(P, W) \<le> speed\<close>, one update deactivates the waypoint, and
  the player's new position is \<open>P + (speed / distance(P, W)) (W - P)\<close>: on the ray
  from \<open>P\<close> through \<open>W\<close>, at distance \<open>speed\<close> from \<open>P\<close>.
\<close>

theorem waypoint_arrival:
  assumes act: "is_active (the_waypoint g)"
    and nothome: "\<not> contains (the_home g) (player_x (the_player g)) (player_y (the_player g))"
    and pos: "0 < distance (turtle (the_player g)) (waypoint_x (the_waypoint g)) (waypoint_y (the_waypoint g))"
    and near: "distance (turtle (the_player g)) (waypoint_x (the_waypoint g)) (waypoint_y (the_waypoint g))
                \<le> player_speed (the_player g)"
  shows "\<not> is_active (the_waypoint (Player_update g))
    \<and> player_x (the_player (Player_update g)) =
        player_x (the_player g) +
        (player_speed (the_player g)
          / distance (turtle (the_player g)) (waypoint_x (the_waypoint g)) (waypoint_y (the_waypoint g)))
        * (waypoint_x (the_waypoint g) - player_x (the_player g))
    \<and> player_y (the_player (Player_update g)) =
        player_y (the_player g) +
        (player_speed (the_player g)
          / distance (turtle (the_player g)) (waypoint_x (the_waypoint g)) (waypoint_y (the_waypoint g)))
        * (waypoint_y (the_waypoint g) - player_y (the_player g))"
proof -
  let ?t = "turtle (the_player g)"
  let ?wx = "waypoint_x (the_waypoint g)"
  let ?wy = "waypoint_y (the_waypoint g)"
  let ?s = "player_speed (the_player g)"
  let ?d = "distance ?t ?wx ?wy"
  have ne: "\<not> (?wx = xcor ?t \<and> ?wy = ycor ?t)"
    using pos distance_zero_iff [of ?t ?wx ?wy] by auto
  have tw: "towards ?t ?wx ?wy = ((?wx - xcor ?t) / ?d, (?wy - ycor ?t) / ?d)"
    using ne by (auto simp add: towards_def)
  let ?t2 = "forward ?s (setheading (towards ?t ?wx ?wy) ?t)"
  have t2: "xcor ?t2 = xcor ?t + ?s * ((?wx - xcor ?t) / ?d)"
    "ycor ?t2 = ycor ?t + ?s * ((?wy - ycor ?t) / ?d)"
    by (simp_all add: forward_def setheading_def tw)
  have "distance ?t2 ?wx ?wy =
      sqrt (((?wx - xcor ?t) - ?s * ((?wx - xcor ?t) / ?d))\<^sup>2
          + ((?wy - ycor ?t) - ?s * ((?wy - ycor ?t) / ?d))\<^sup>2)"
    unfolding distance_def [of ?t2] t2 by (simp add: algebra_simps)
  also have "\<dots> = \<bar>?d - ?s\<bar>"
    by (rule distance_after_step [OF pos]) (simp add: distance_def)
  finally have "distance ?t2 ?wx ?wy < ?s"
    using pos near by simp
  then show ?thesis
    using act nothome t2
    by (simp add: Player_update_def Let_def deactivate_def is_active_def player_x_def player_y_def)
qed

theorem waypoint_arrival_witness:
  "distance (turtle (the_player click_nearby)) (waypoint_x (the_waypoint click_nearby)) (waypoint_y (the_waypoint click_nearby)) = 3
   \<and> \<not> is_active (the_waypoint (Player_update click_nearby))
   \<and> player_x (the_player (Player_update click_nearby)) = 55
   \<and> player_y (the_player (Player_update click_nearby)) = 250"
  using waypoint_arrival [of click_nearby]
  by (simp add: click_nearby_eq player_x_def player_y_def contains_def is_active_def
      distance_horizontal)

text \<open>
  The update that refutes C6 as stated: a click on the player's own position puts \<open>W\<close>
  at distance 0 of \<open>P\<close>. The heading is that of angle 0, the player moves to
  \<open>(55, 250)\<close>, at distance 5 of \<open>W\<close>, which is not less than the speed: the waypoint
  stays active.
\<close>

theorem waypoint_arrival_on_player_counterexample:
  "is_active (the_waypoint click_on_player)
   \<and> \<not> contains (the_home click_on_player) (player_x (the_player click_on_player)) (player_y (the_player click_on_player))
   \<and> distance (turtle (the_player click_on_player)) (waypoint_x (the_waypoint click_on_player)) (waypoint_y (the_waypoint click_on_player)) = 0
   \<and> player_speed (the_player click_on_player) = 5
   \<and> is_active (the_waypoint (Player_update click_on_player))
   \<and> player_x (the_player (Player_update click_on_player)) = 55
   \<and> player_y (the_player (Player_update click_on_player)) = 250"
  by (simp add: click_on_player_eq Player_update_def Let_def setheading_def forward_def
      player_x_def player_y_def contains_def is_active_def towards_def distance_horizontal)

subsection \<open>Terminal transitions\<close>

lemma positions_game_over [simp]:
  "positions (game_over_win g) = positions g"
  "positions (game_over_lose g) = positions g"
  by (simp_all add: positions_def game_over_win_def game_over_lose_def create_text_def stop_def)

lemma not_running_game_over [simp]:
  "\<not> is_running (game_over_win g)" "\<not> is_running (game_over_lose g)"
  by (simp_all add: game_over_win_def game_over_lose_def create_text_def stop_def)

lemma ticks_halted: "\<not> is_running g \<Longrightarrow> ticks n g r = Some (g, r)"
  by (induction n) (simp_all add: tick_def)

text \<open>While the cycle runs a tick does step the container: here it updates the player.\<close>

lemma tick_running_example:
  "tick click_nearby r = Some (Player_update click_nearby, r)"
  by (simp add: tick_def click_nearby_eq update_element_def)

text \<open>
  C9. Neither \<open>game_over_win\<close> nor \<open>game_over_lose\<close> changes the position of the
  player or of an enemy, on a first invocation or on a second one of either; and after
  one or two invocations any number of frame ticks leaves the whole session, and so
  every position, as it is.
\<close>

theorem game_over_terminal:
  "positions (game_over_win g) = positions g
   \<and> positions (game_over_lose g) = positions g
   \<and> positions (game_over_win (game_over_win g)) = positions g
   \<and> positions (game_over_lose (game_over_win g)) = positions g
   \<and> positions (game_over_win (game_over_lose g)) = positions g
   \<and> positions (game_over_lose (game_over_lose g)) = positions g
   \<and> ticks n (game_over_win g) r = Some (game_over_win g, r)
   \<and> ticks n (game_over_lose g) r = Some (game_over_lose g, r)
   \<and> ticks n (game_over_win (game_over_win g)) r = Some (game_over_win (game_over_win g), r)
   \<and> ticks n (game_over_lose (game_over_win g)) r = Some (game_over_lose (game_over_win g), r)
   \<and> ticks n (game_over_win (game_over_lose g)) r = Some (game_over_win (game_over_lose g), r)
   \<and> ticks n (game_over_lose (game_over_lose g)) r = Some (game_over_lose (game_over_lose g), r)"
  by (simp add: ticks_halted)

subsection \<open>Patrol around Home\<close>

lemma patroller_fields [simp]:
  "enemy_x (patroller x y st) = x" "enemy_y (patroller x y st) = y" "state (patroller x y st) = st"
  by (simp_all add: patroller_def)

lemma AroundHomeEnemy_step:
  "fst (AroundHomeEnemy_update g (patroller x y (AroundHomeEnemy mx my gx gy ml mu))) =
   (if gx then
      (if \<not> ml then
         patroller (x + 3) y
           (if mx + 3 \<ge> 100 then AroundHomeEnemy (mx + 3) my False True True mu
            else AroundHomeEnemy (mx + 3) my gx gy ml mu)
       else
         patroller (x - 3) y
           (if mx - 3 \<le> 0 then AroundHomeEnemy (mx - 3) my False True False mu
            else AroundHomeEnemy (mx - 3) my gx gy ml mu))
    else
      (if \<not> mu then
         patroller x (y + 3)
           (if my + 3 \<ge> 100 then AroundHomeEnemy mx (my + 3) True False ml True
            else AroundHomeEnemy mx (my + 3) gx gy ml mu)
       else
         patroller x (y - 3)
           (if my - 3 \<le> 0 then AroundHomeEnemy mx (my - 3) True False ml False
            else AroundHomeEnemy mx (my - 3) gx gy ml mu)))"
  by (simp add: AroundHomeEnemy_update_def patroller_def Let_def)

lemma new_AroundHomeEnemy_patroller:
  "new_AroundHomeEnemy g 25 ''blue'' =
     patroller (home_x (the_home g) - 50) (home_y (the_home g) - 50)
       (AroundHomeEnemy 0 0 True False True True)"
  by (simp add: new_AroundHomeEnemy_def patroller_def)

lemma patrol_first_lap:
  "AroundHomeEnemy_frames 1 g (patroller x y (AroundHomeEnemy 0 0 True False True True)) =
     patroller (x - 3) y (AroundHomeEnemy (- 3) 0 False True False True)"
  "AroundHomeEnemy_frames 2 g (patroller x y (AroundHomeEnemy 0 0 True False True True)) =
     patroller (x - 3) (y - 3) (AroundHomeEnemy (- 3) (- 3) True False False False)"
  "AroundHomeEnemy_frames 37 g (patroller x y (AroundHomeEnemy 0 0 True False True True)) =
     patroller (x + 102) (y - 3) (AroundHomeEnemy 102 (- 3) False True True False)"
  "AroundHomeEnemy_frames 72 g (patroller x y (AroundHomeEnemy 0 0 True False True True)) =
     patroller (x + 102) (y + 102) (AroundHomeEnemy 102 102 True False True True)"
  "AroundHomeEnemy_frames 106 g (patroller x y (AroundHomeEnemy 0 0 True False True True)) =
     patroller x (y + 102) (AroundHomeEnemy 0 102 False True False True)"
  "AroundHomeEnemy_frames 140 g (patroller x y (AroundHomeEnemy 0 0 True False True True)) =
     patroller x y (AroundHomeEnemy 0 0 True False False False)"
  by (simp_all add: numeral_eq_Suc AroundHomeEnemy_step add.commute)

lemma patrol_steady_lap:
  "AroundHomeEnemy_frames 34 g (patroller x y (AroundHomeEnemy 0 0 True False False False)) =
     patroller (x + 102) y (AroundHomeEnemy 102 0 False True True False)"
  "AroundHomeEnemy_frames 68 g (patroller x y (AroundHomeEnemy 0 0 True False False False)) =
     patroller (x + 102) (y + 102) (AroundHomeEnemy 102 102 True False True True)"
  "AroundHomeEnemy_frames 102 g (patroller x y (AroundHomeEnemy 0 0 True False False False)) =
     patroller x (y + 102) (AroundHomeEnemy 0 102 False True False True)"
  "AroundHomeEnemy_frames 136 g (patroller x y (AroundHomeEnemy 0 0 True False False False)) =
     patroller x y (AroundHomeEnemy 0 0 True False False False)"
  by (simp_all add: numeral_eq_Suc AroundHomeEnemy_step add.commute)

lemma patrol_step_length:
  "\<bar>enemy_x (fst (AroundHomeEnemy_update g e)) - enemy_x e\<bar>
     + \<bar>enemy_y (fst (AroundHomeEnemy_update g e)) - enemy_y e\<bar> = 3"
  by (simp add: AroundHomeEnemy_update_def Let_def)

lemma patrol_phase_change:
  "moving_x (state (fst (AroundHomeEnemy_update g (patroller x y (AroundHomeEnemy mx my gx gy ml mu))))) \<noteq> gx
   \<longleftrightarrow> (if gx then (if ml then mx - 3 \<le> 0 else mx + 3 \<ge> 100)
        else (if mu then my - 3 \<le> 0 else my + 3 \<ge> 100))"
  by (simp add: AroundHomeEnemy_step)

text \<open>
  C7, as the code has it. The patrol enemy starts 50 units to the left of and above
  Home. Every update moves it 3 units along one axis, and a phase ends when the
  displacement counter of that axis has become \<open>\<le> 0\<close> on the way down or \<open>\<ge> 100\<close> on
  the way up. From the initial state the first two updates are one step in \<open>-x\<close> and one
  in \<open>-y\<close> (both counters at \<open>-3\<close>); the counters then turn at 102 and at 0, so the
  path is a square of 102 units per side. The enemy is back at its starting position,
  with both counters 0, after 140 updates, and from that state on after every 136
  updates (34 per side).
\<close>

theorem patrol_square:
  "new_AroundHomeEnemy g 25 ''blue'' =
     patroller (home_x (the_home g) - 50) (home_y (the_home g) - 50)
       (AroundHomeEnemy 0 0 True False True True)
   \<and> \<bar>enemy_x (fst (AroundHomeEnemy_update g e)) - enemy_x e\<bar>
       + \<bar>enemy_y (fst (AroundHomeEnemy_update g e)) - enemy_y e\<bar> = 3
   \<and> (moving_x (state (fst (AroundHomeEnemy_update g (patroller x y (AroundHomeEnemy mx my gx gy ml mu))))) \<noteq> gx
       \<longleftrightarrow> (if gx then (if ml then mx - 3 \<le> 0 else mx + 3 \<ge> 100)
            else (if mu then my - 3 \<le> 0 else my + 3 \<ge> 100)))
   \<and> AroundHomeEnemy_frames 2 g (patroller x y (AroundHomeEnemy 0 0 True False True True)) =
       patroller (x - 3) (y - 3) (AroundHomeEnemy (- 3) (- 3) True False False False)
   \<and> AroundHomeEnemy_frames 37 g (patroller x y (AroundHomeEnemy 0 0 True False True True)) =
       patroller (x + 102) (y - 3) (AroundHomeEnemy 102 (- 3) False True True False)
   \<and> AroundHomeEnemy_frames 72 g (patroller x y (AroundHomeEnemy 0 0 True False True True)) =
       patroller (x + 102) (y + 102) (AroundHomeEnemy 102 102 True False True True)
   \<and> AroundHomeEnemy_frames 106 g (patroller x y (AroundHomeEnemy 0 0 True False True True)) =
       patroller x (y + 102) (AroundHomeEnemy 0 102 False True False True)
   \<and> AroundHomeEnemy_frames 140 g (patroller x y (AroundHomeEnemy 0 0 True False True True)) =
       patroller x y (AroundHomeEnemy 0 0 True False False False)
   \<and> AroundHomeEnemy_frames 34 g (patroller x y (AroundHomeEnemy 0 0 True False False False)) =
       patroller (x + 102) y (AroundHomeEnemy 102 0 False True True False)
   \<and> AroundHomeEnemy_frames 68 g (patroller x y (AroundHomeEnemy 0 0 True False False False)) =
       patroller (x + 102) (y + 102) (AroundHomeEnemy 102 102 True False True True)
   \<and> AroundHomeEnemy_frames 102 g (patroller x y (AroundHomeEnemy 0 0 True False False False)) =
       patroller x (y + 102) (AroundHomeEnemy 0 102 False True False True)
   \<and> AroundHomeEnemy_frames 136 g (patroller x y (AroundHomeEnemy 0 0 True False False False)) =
       patroller x y (AroundHomeEnemy 0 0 True False False False)"
  by (intro conjI)
    (rule new_AroundHomeEnemy_patroller patrol_step_length patrol_phase_change
      patrol_first_lap patrol_steady_lap)+

text \<open>
  The run that refutes C7 as stated, in the reference session (start at
  \<open>(650, 200)\<close>). After 37 updates the enemy is 102 units to the right of its start, not
  100. Each update displaces it by 3 units, so the cumulative displacement is 399 after
  133 updates and 402 after 134: at neither is it back at its starting offset (the
  counter of \<open>y\<close> is 21, then 18).
\<close>

theorem patrol_closure_counterexample:
  "patrol_start = patroller 650 200 (AroundHomeEnemy 0 0 True False True True)
   \<and> AroundHomeEnemy_frames 37 example_game patrol_start =
       patroller 752 197 (AroundHomeEnemy 102 (- 3) False True True False)
   \<and> AroundHomeEnemy_frames 133 example_game patrol_start =
       patroller 650 221 (AroundHomeEnemy 0 21 False True False True)
   \<and> AroundHomeEnemy_frames 134 example_game patrol_start =
       patroller 650 218 (AroundHomeEnemy 0 18 False True False True)"
proof -
  have s: "patrol_start = patroller 650 200 (AroundHomeEnemy 0 0 True False True True)"
    by (simp add: patrol_start_def new_AroundHomeEnemy_patroller example_game_eq)
  show ?thesis
    unfolding s by (simp add: numeral_eq_Suc AroundHomeEnemy_step)
qed

subsection \<open>Spawn scheduler\<close>

lemma randint_Some:
  "a \<le> b \<Longrightarrow> randint a b r = Some (a + int (r 0 mod nat (b - a + 1)), advance r)"
  by (simp add: randint_def)

lemma jitter: "\<bar>real (k mod 21) - 10\<bar> \<le> 10"
proof -
  have "k mod 21 < 21" by simp
  then have "real (k mod 21) \<le> 20" by linarith
  then show ?thesis by (simp add: abs_le_iff)
qed

lemma choice_Cons:
  "choice (x # xs) r = Some ((x # xs) ! (r 0 mod length (x # xs)), advance r)"
  by (simp add: choice_def)

lemma create_summon_result:
  "\<exists>g' r' e1 e2. create_summon sx sy sm g r = Some (g', r')
     \<and> store g' = store g @ [e1, e2]
     \<and> class_of e1 = ''DiagonalMinionEnemy''
     \<and> class_of e2 = ''StraightMinionEnemy''
     \<and> near sx sy e1 \<and> near sx sy e2
     \<and> summoner (state e1) = sm \<and> summoner (state e2) = sm
     \<and> elements g' = elements g @ [EnemyRef (length (store g)), EnemyRef (Suc (length (store g)))]
     \<and> enemies g' = enemies g \<and> timers g' = timers g \<and> the_home g' = the_home g"
  by (simp add: create_summon_def new_DiagonalMinionEnemy_def new_StraightMinionEnemy_def
      choice_Cons randint_Some alloc_def add_element_def near_def jitter class_of_def)

lemma create_summons_result:
  "\<exists>g' r' ms. create_summons n sx sy sm g r = Some (g', r')
     \<and> store g' = store g @ ms
     \<and> map class_of ms =
         concat (replicate n [''DiagonalMinionEnemy'', ''StraightMinionEnemy''])
     \<and> (\<forall>m \<in> set ms. near sx sy m \<and> summoner (state m) = sm)
     \<and> elements g' = elements g @ map EnemyRef [length (store g) ..< length (store g) + 2 * n]
     \<and> enemies g' = enemies g \<and> timers g' = timers g \<and> the_home g' = the_home g"
proof (induction n arbitrary: g r)
  case 0
  then show ?case by simp
next
  case (Suc n)
  obtain g1 r1 e1 e2 where one: "create_summon sx sy sm g r = Some (g1, r1)"
    "store g1 = store g @ [e1, e2]"
    "class_of e1 = ''DiagonalMinionEnemy''"
    "class_of e2 = ''StraightMinionEnemy''"
    "near sx sy e1" "near sx sy e2" "summoner (state e1) = sm" "summoner (state e2) = sm"
    "elements g1 = elements g @ [EnemyRef (length (store g)), EnemyRef (Suc (length (store g)))]"
    "enemies g1 = enemies g" "timers g1 = timers g" "the_home g1 = the_home g"
    using create_summon_result [of sx sy sm g r] by blast
  obtain g' r' ms where rest: "create_summons n sx sy sm g1 r1 = Some (g', r')"
    "store g' = store g1 @ ms"
    "map class_of ms =
       concat (replicate n [''DiagonalMinionEnemy'', ''StraightMinionEnemy''])"
    "\<forall>m \<in> set ms. near sx sy m \<and> summoner (state m) = sm"
    "elements g' = elements g1 @ map EnemyRef [length (store g1) ..< length (store g1) + 2 * n]"
    "enemies g' = enemies g1" "timers g' = timers g1" "the_home g' = the_home g1"
    using Suc.IH [of g1 r1] by blast
  have up: "[length (store g) ..< length (store g) + 2 * Suc n] =
      length (store g) # Suc (length (store g)) # [length (store g) + 2 ..< length (store g) + 2 + 2 * n]"
    by (simp add: upt_rec)
  show ?case
    apply (rule exI [of _ g'], rule exI [of _ r'], rule exI [of _ "e1 # e2 # ms"])
    using one rest up by simp
qed

lemma create_enemy_result:
  "\<exists>g' r' rw pu pa su ms. create_enemy g r = Some (g', r')
     \<and> store g' = store g @ [rw, pu, pa, su] @ ms
     \<and> map class_of [rw, pu, pa, su] =
         [''ShakingEnemy'', ''PursuitEnemy'', ''AroundHomeEnemy'', ''SummonEnemy'']
     \<and> map class_of ms =
         concat (replicate 6 [''DiagonalMinionEnemy'', ''StraightMinionEnemy''])
     \<and> (\<forall>m \<in> set ms. \<bar>enemy_x m - enemy_x su\<bar> \<le> 10 \<and> \<bar>enemy_y m - enemy_y su\<bar> \<le> 10
           \<and> summoner (state m) = length (store g) + 3)
     \<and> elements g' = elements g @ map EnemyRef [length (store g) ..< length (store g) + 16]
     \<and> enemies g' = enemies g
     \<and> timers g' = timers g @ [(3000, create_enemy_callback)]"
proof -
  define rx where "rx = 200 + int (r 0 mod 601)"
  define ry where "ry = int (advance r 0 mod 401)"
  define rw where "rw = (new_ShakingEnemy 20 ''red'')\<lparr>enemy_x := of_int rx, enemy_y := of_int ry\<rparr>"
  define r2 where "r2 = advance (advance r)"
  define px where "px = 200 + int (r2 0 mod 601)"
  define py where "py = int (advance r2 0 mod 401)"
  define pu where "pu = (new_PursuitEnemy 10 ''yellow'')\<lparr>enemy_x := of_int px, enemy_y := of_int py\<rparr>"
  define r4 where "r4 = advance (advance r2)"
  define pa where "pa = (new_AroundHomeEnemy g 25 ''blue'')
      \<lparr>enemy_x := home_x (the_home g) - 50, enemy_y := home_y (the_home g) - 50\<rparr>"
  define sx where "sx = 200 + int (r4 0 mod 601)"
  define sy where "sy = int (advance r4 0 mod 401)"
  define su where "su = (new_SummonEnemy 35 ''green'')\<lparr>enemy_x := of_int sx, enemy_y := of_int sy\<rparr>"
  define r6 where "r6 = advance (advance r4)"
  define g8 where "g8 = g\<lparr>store := store g @ [rw, pu, pa, su],
      elements := elements g @ map EnemyRef [length (store g) ..< length (store g) + 4]\<rparr>"
  have up4: "[length (store g) ..< length (store g) + 4] =
      [length (store g), length (store g) + 1, length (store g) + 2, length (store g) + 3]"
    by (simp add: upt_rec)
  have n3: "length (store g) + 3 = Suc (Suc (Suc (length (store g))))"
    by simp
  have ce: "create_enemy g r =
      create_summons 6 sx sy (length (store g) + 3) g8 r6
        \<bind> (\<lambda>(g9, r7). Some (after 3000 create_enemy_callback g9, r7))"
    unfolding create_enemy_def g8_def up4 r6_def su_def sx_def sy_def pa_def r4_def pu_def
      px_def py_def r2_def rw_def rx_def ry_def
    by (simp add: randint_Some alloc_def add_element_def new_AroundHomeEnemy_def Let_def n3)
  obtain g9 r7 ms where ms: "create_summons 6 sx sy (length (store g) + 3) g8 r6 = Some (g9, r7)"
    "store g9 = store g8 @ ms"
    "map class_of ms =
       concat (replicate 6 [''DiagonalMinionEnemy'', ''StraightMinionEnemy''])"
    "\<forall>m \<in> set ms. near sx sy m \<and> summoner (state m) = length (store g) + 3"
    "elements g9 = elements g8 @ map EnemyRef [length (store g8) ..< length (store g8) + 2 * 6]"
    "enemies g9 = enemies g8" "timers g9 = timers g8" "the_home g9 = the_home g8"
    using create_summons_result [of 6 sx sy "length (store g) + 3" g8 r6] by blast
  have cls: "map class_of [rw, pu, pa, su] =
         [''ShakingEnemy'', ''PursuitEnemy'', ''AroundHomeEnemy'', ''SummonEnemy'']"
    by (simp add: rw_def pu_def pa_def su_def new_ShakingEnemy_def new_PursuitEnemy_def
        new_AroundHomeEnemy_def new_SummonEnemy_def class_of_def)
  have su_pos: "enemy_x su = of_int sx" "enemy_y su = of_int sy"
    by (simp_all add: su_def)
  have l8: "length (store g8) = length (store g) + 4"
    by (simp add: g8_def)
  have el8: "elements g8 = elements g @ map EnemyRef [length (store g) ..< length (store g) + 4]"
    by (simp add: g8_def)
  have m5: "elements g9 =
      elements g8 @ map EnemyRef [length (store g) + 4 ..< length (store g) + 4 + 12]"
    using ms(5) l8 by simp
  have split: "[length (store g) ..< length (store g) + 4 + 12] =
      [length (store g) ..< length (store g) + 4] @ [length (store g) + 4 ..< length (store g) + 4 + 12]"
    by (rule upt_add_eq_append) simp
  have "elements g9 =
      (elements g @ map EnemyRef [length (store g) ..< length (store g) + 4])
        @ map EnemyRef [length (store g) + 4 ..< length (store g) + 4 + 12]"
    using m5 el8 by (simp only:)
  also have "\<dots> = elements g @ map EnemyRef [length (store g) ..< length (store g) + 4 + 12]"
    by (simp only: split map_append append_assoc)
  also have "length (store g) + 4 + 12 = length (store g) + 16"
    by simp
  finally have el: "elements g9 = elements g @ map EnemyRef [length (store g) ..< length (store g) + 16]" .
  show ?thesis
    apply (rule exI [of _ "after 3000 create_enemy_callback g9"], rule exI [of _ r7])
    apply (rule exI [of _ rw], rule exI [of _ pu], rule exI [of _ pa], rule exI [of _ su])
    apply (rule exI [of _ ms])
    using ce ms(1-4,6,7) cls su_pos el
    by (simp add: after_def g8_def near_def)
qed


lemma fire_pending:
  "timers g = (d, create_enemy_callback) # ts \<Longrightarrow> fire g r = create_enemy (g\<lparr>timers := ts\<rparr>) r"
  by (simp add: fire_def)

lemma minion_classes:
  "concat (replicate 6 [''DiagonalMinionEnemy'', ''StraightMinionEnemy'']) =
     [''DiagonalMinionEnemy'', ''StraightMinionEnemy'', ''DiagonalMinionEnemy'', ''StraightMinionEnemy'',
      ''DiagonalMinionEnemy'', ''StraightMinionEnemy'', ''DiagonalMinionEnemy'', ''StraightMinionEnemy'',
      ''DiagonalMinionEnemy'', ''StraightMinionEnemy'', ''DiagonalMinionEnemy'', ''StraightMinionEnemy'']"
  by (simp add: numeral_eq_Suc)

text \<open>
  C2, as the code has it. Every firing of the scheduler succeeds and adds sixteen enemy
  objects, in this order: one random walker, one pursuer, one patroller, one summoner,
  and twelve minions in six pairs of a diagonal and a straight one. Every minion is
  within 10 units, on each axis, of the summoner's position and refers to that
  summoner. All sixteen are registered with the container, and the firing arms one new
  timer of 3000 ms. The generator arms its first timer, of 100 ms, when the session is
  initialised; so a session with that one timer pending has, after a firing, again one
  timer pending, of 3000 ms.
\<close>

theorem spawn_firing:
  "(\<exists>g' r'. create_enemy g r = Some (g', r')
      \<and> take (length (store g)) (store g') = store g
      \<and> map class_of (drop (length (store g)) (store g')) =
          [''ShakingEnemy'', ''PursuitEnemy'', ''AroundHomeEnemy'', ''SummonEnemy'',
           ''DiagonalMinionEnemy'', ''StraightMinionEnemy'', ''DiagonalMinionEnemy'', ''StraightMinionEnemy'',
           ''DiagonalMinionEnemy'', ''StraightMinionEnemy'', ''DiagonalMinionEnemy'', ''StraightMinionEnemy'',
           ''DiagonalMinionEnemy'', ''StraightMinionEnemy'', ''DiagonalMinionEnemy'', ''StraightMinionEnemy'']
      \<and> (\<forall>m \<in> set (drop (length (store g) + 4) (store g')).
            \<bar>enemy_x m - enemy_x (store g' ! (length (store g) + 3))\<bar> \<le> 10
            \<and> \<bar>enemy_y m - enemy_y (store g' ! (length (store g) + 3))\<bar> \<le> 10
            \<and> summoner (state m) = length (store g) + 3)
      \<and> elements g' = elements g @ map EnemyRef [length (store g) ..< length (store g) + 16]
      \<and> timers g' = timers g @ [(3000, create_enemy_callback)])
   \<and> timers (new_EnemyGenerator g) = timers g @ [(100, create_enemy_callback)]
   \<and> timers (TurtleAdventureGame w h lvl) = [(100, create_enemy_callback)]
   \<and> (timers g = [(d, create_enemy_callback)] \<longrightarrow>
        (\<exists>g' r'. fire g r = Some (g', r') \<and> timers g' = [(3000, create_enemy_callback)]))"
proof (intro conjI impI)
  obtain g' r' rw pu pa su ms where res: "create_enemy g r = Some (g', r')"
    "store g' = store g @ [rw, pu, pa, su] @ ms"
    "map class_of [rw, pu, pa, su] =
         [''ShakingEnemy'', ''PursuitEnemy'', ''AroundHomeEnemy'', ''SummonEnemy'']"
    "map class_of ms = concat (replicate 6 [''DiagonalMinionEnemy'', ''StraightMinionEnemy''])"
    "\<forall>m \<in> set ms. \<bar>enemy_x m - enemy_x su\<bar> \<le> 10 \<and> \<bar>enemy_y m - enemy_y su\<bar> \<le> 10
           \<and> summoner (state m) = length (store g) + 3"
    "elements g' = elements g @ map EnemyRef [length (store g) ..< length (store g) + 16]"
    "enemies g' = enemies g"
    "timers g' = timers g @ [(3000, create_enemy_callback)]"
    using create_enemy_result [of g r] by (elim exE conjE) (rule that)
  have su: "store g' ! (length (store g) + 3) = su"
    by (simp add: res(2) nth_append)
  have dr: "drop (length (store g) + 4) (store g') = ms"
    by (simp add: res(2))
  have "map class_of (drop (length (store g)) (store g')) =
      map class_of [rw, pu, pa, su] @ map class_of ms"
    by (simp add: res(2))
  then have cl: "map class_of (drop (length (store g)) (store g')) =
          [''ShakingEnemy'', ''PursuitEnemy'', ''AroundHomeEnemy'', ''SummonEnemy'',
           ''DiagonalMinionEnemy'', ''StraightMinionEnemy'', ''DiagonalMinionEnemy'', ''StraightMinionEnemy'',
           ''DiagonalMinionEnemy'', ''StraightMinionEnemy'', ''DiagonalMinionEnemy'', ''StraightMinionEnemy'',
           ''DiagonalMinionEnemy'', ''StraightMinionEnemy'', ''DiagonalMinionEnemy'', ''StraightMinionEnemy'']"
    by (simp only: res(3) res(4) minion_classes append_Cons append_Nil)
  show "\<exists>g' r'. create_enemy g r = Some (g', r')
      \<and> take (length (store g)) (store g') = store g
      \<and> map class_of (drop (length (store g)) (store g')) =
          [''ShakingEnemy'', ''PursuitEnemy'', ''AroundHomeEnemy'', ''SummonEnemy'',
           ''DiagonalMinionEnemy'', ''StraightMinionEnemy'', ''DiagonalMinionEnemy'', ''StraightMinionEnemy'',
           ''DiagonalMinionEnemy'', ''StraightMinionEnemy'', ''DiagonalMinionEnemy'', ''StraightMinionEnemy'',
           ''DiagonalMinionEnemy'', ''StraightMinionEnemy'', ''DiagonalMinionEnemy'', ''StraightMinionEnemy'']
      \<and> (\<forall>m \<in> set (drop (length (store g) + 4) (store g')).
            \<bar>enemy_x m - enemy_x (store g' ! (length (store g) + 3))\<bar> \<le> 10
            \<and> \<bar>enemy_y m - enemy_y (store g' ! (length (store g) + 3))\<bar> \<le> 10
            \<and> summoner (state m) = length (store g) + 3)
      \<and> elements g' = elements g @ map EnemyRef [length (store g) ..< length (store g) + 16]
      \<and> timers g' = timers g @ [(3000, create_enemy_callback)]"
    apply (rule exI [of _ g'], rule exI [of _ r'])
    unfolding su dr
    using res(1,5,6,8) cl by (simp add: res(2))
next
  show "timers (new_EnemyGenerator g) = timers g @ [(100, create_enemy_callback)]"
    by (simp add: new_EnemyGenerator_def after_def)
next
  show "timers (TurtleAdventureGame w h lvl) = [(100, create_enemy_callback)]"
    by (simp add: TurtleAdventureGame_def init_game_def Let_def add_element_def
        new_EnemyGenerator_def after_def)
next
  assume t: "timers g = [(d, create_enemy_callback)]"
  obtain g' r' where "create_enemy (g\<lparr>timers := []\<rparr>) r = Some (g', r')"
    "timers g' = timers (g\<lparr>timers := []\<rparr>) @ [(3000, create_enemy_callback)]"
    using create_enemy_result [of "g\<lparr>timers := []\<rparr>" r] by blast
  then show "\<exists>g' r'. fire g r = Some (g', r') \<and> timers g' = [(3000, create_enemy_callback)]"
    using fire_pending [OF t, of r] by simp
qed

theorem spawn_firing_witness:
  "timers example_game = [(100, create_enemy_callback)]
   \<and> (\<exists>g' r'. fire example_game zero_rng = Some (g', r')
         \<and> timers g' = [(3000, create_enemy_callback)])
   \<and> (\<exists>g' r'. create_enemy example_game zero_rng = Some (g', r') \<and> length (store g') = 16)"
proof -
  have t: "timers example_game = [(100, create_enemy_callback)]"
    by (simp add: example_game_eq)
  have s: "store example_game = []"
    by (simp add: example_game_eq)
  from spawn_firing [of example_game zero_rng 800 500 1 100]
  obtain g' r' where "create_enemy example_game zero_rng = Some (g', r')"
    "length (map class_of (drop (length (store example_game)) (store g'))) = 16"
    by fastforce
  then have "\<exists>g' r'. create_enemy example_game zero_rng = Some (g', r') \<and> length (store g') = 16"
    by (simp add: s)
  then show ?thesis
    using t spawn_firing [of example_game zero_rng 800 500 1 100] by blast
qed

text \<open>
  The firing that refutes C2 as stated: in the reference session the firing adds sixteen
  enemies, of which six are diagonal minions and six are straight minions. There are
  twelve minions, not six.
\<close>

theorem twelve_minions_counterexample:
  "length (spawned example_game zero_rng) = 16
   \<and> count_list (map class_of (spawned example_game zero_rng)) ''DiagonalMinionEnemy'' = 6
   \<and> count_list (map class_of (spawned example_game zero_rng)) ''StraightMinionEnemy'' = 6"
proof -
  obtain g' r' rw pu pa su ms where res: "create_enemy example_game zero_rng = Some (g', r')"
    "store g' = store example_game @ [rw, pu, pa, su] @ ms"
    "map class_of [rw, pu, pa, su] =
         [''ShakingEnemy'', ''PursuitEnemy'', ''AroundHomeEnemy'', ''SummonEnemy'']"
    "map class_of ms = concat (replicate 6 [''DiagonalMinionEnemy'', ''StraightMinionEnemy''])"
    using create_enemy_result [of example_game zero_rng] by (elim exE conjE) (rule that)
  have sp: "spawned example_game zero_rng = [rw, pu, pa, su] @ ms"
    by (simp add: spawned_def res(1,2))
  have cl: "map class_of (spawned example_game zero_rng) =
          [''ShakingEnemy'', ''PursuitEnemy'', ''AroundHomeEnemy'', ''SummonEnemy'',
           ''DiagonalMinionEnemy'', ''StraightMinionEnemy'', ''DiagonalMinionEnemy'', ''StraightMinionEnemy'',
           ''DiagonalMinionEnemy'', ''StraightMinionEnemy'', ''DiagonalMinionEnemy'', ''StraightMinionEnemy'',
           ''DiagonalMinionEnemy'', ''StraightMinionEnemy'', ''DiagonalMinionEnemy'', ''StraightMinionEnemy'']"
    unfolding sp map_append by (simp only: res(3) res(4) minion_classes append_Cons append_Nil)
  have "length (map class_of (spawned example_game zero_rng)) = 16"
    unfolding cl by simp
  then have "length (spawned example_game zero_rng) = 16"
    by simp
  then show ?thesis
    unfolding cl by simp
qed

text \<open>
  \<open>add_enemy\<close> does put an enemy on the session's list of enemies and in the container.
\<close>

lemma add_enemy_registers:
  "enemies (add_enemy a g) = enemies g @ [a] \<and> elements (add_enemy a g) = elements g @ [EnemyRef a]"
  by (simp add: add_enemy_def add_element_def)

text \<open>
  C3. A firing of the scheduler registers its sixteen enemies with the container and
  leaves the session's list of enemies as it was: \<open>create_enemy\<close> and
  \<open>create_summon\<close> call \<open>add_element\<close>, never \<open>add_enemy\<close>. After the first firing of
  the reference session the container holds the sixteen enemies and the list of enemies
  is empty.
\<close>

theorem spawned_enemies_missing_from_enemy_list:
  "(\<exists>g' r'. create_enemy g r = Some (g', r')
      \<and> length (store g') = length (store g) + 16
      \<and> elements g' = elements g @ map EnemyRef [length (store g) ..< length (store g) + 16]
      \<and> enemies g' = enemies g)
   \<and> (\<exists>g' r'. fire example_game zero_rng = Some (g', r')
      \<and> length (store g') = 16
      \<and> elements g' = [WaypointRef, HomeRef, PlayerRef] @ map EnemyRef [0 ..< 16]
      \<and> enemies g' = [])"
proof (intro conjI)
  obtain g' r' rw pu pa su ms where res: "create_enemy g r = Some (g', r')"
    "store g' = store g @ [rw, pu, pa, su] @ ms"
    "map class_of ms = concat (replicate 6 [''DiagonalMinionEnemy'', ''StraightMinionEnemy''])"
    "elements g' = elements g @ map EnemyRef [length (store g) ..< length (store g) + 16]"
    "enemies g' = enemies g"
    using create_enemy_result [of g r] by (elim exE conjE) (rule that)
  have "length (map class_of ms) = 12"
    unfolding res(3) minion_classes by simp
  then have "length (store g') = length (store g) + 16"
    by (simp add: res(2))
  then show "\<exists>g' r'. create_enemy g r = Some (g', r')
      \<and> length (store g') = length (store g) + 16
      \<and> elements g' = elements g @ map EnemyRef [length (store g) ..< length (store g) + 16]
      \<and> enemies g' = enemies g"
    using res(1,4,5) by blast
next
  let ?g = "example_game\<lparr>timers := []\<rparr>"
  obtain g' r' rw pu pa su ms where res: "create_enemy ?g zero_rng = Some (g', r')"
    "store g' = store ?g @ [rw, pu, pa, su] @ ms"
    "map class_of ms = concat (replicate 6 [''DiagonalMinionEnemy'', ''StraightMinionEnemy''])"
    "elements g' = elements ?g @ map EnemyRef [length (store ?g) ..< length (store ?g) + 16]"
    "enemies g' = enemies ?g"
    using create_enemy_result [of ?g zero_rng] by (elim exE conjE) (rule that)
  have "length (map class_of ms) = 12"
    unfolding res(3) minion_classes by simp
  then have l: "length (store g') = 16"
    by (simp add: res(2) example_game_eq)
  have f: "fire example_game zero_rng = Some (g', r')"
    using fire_pending [of example_game 100 "[]" zero_rng] res(1) by (simp add: example_game_eq)
  show "\<exists>g' r'. fire example_game zero_rng = Some (g', r')
      \<and> length (store g') = 16
      \<and> elements g' = [WaypointRef, HomeRef, PlayerRef] @ map EnemyRef [0 ..< 16]
      \<and> enemies g' = []"
    apply (rule exI [of _ g'], rule exI [of _ r'])
    using f l res(4,5) by (simp add: example_game_eq)
qed


end
